theory Spec2Isabelle
  imports Complex_Main "HOL-Library.Sublist"
begin

section \<open>JavaScript numbers\<close>

text \<open>
  The analyser of \<^verbatim>\<open>monitor.js\<close> computes with JavaScript numbers. A number is modelled as
  a real, or one of the special values that the arithmetic of the source produces: the
  negative zero, the two infinities (division by a zero) and \<open>NaN\<close> (0/0, the logarithm of
  a negative number). \<open>Num 0\<close> is the positive zero \<open>+0\<close> and \<open>NegZero\<close> is \<open>-0\<close>; the two
  compare equal and differ as divisors. Rounding of the binary representation, overflow
  and underflow are not modelled: finite results are exact reals.
\<close>

datatype jsnum = Num real | NegZero | PosInf | NegInf | NaN

text \<open>The sign bit, the zeros, the infinities, and the real value of a finite number.\<close>

fun negative :: "jsnum \<Rightarrow> bool" where
  "negative (Num a) = (a < 0)"
| "negative NegZero = True"
| "negative PosInf = False"
| "negative NegInf = True"
| "negative NaN = False"

fun is_zero :: "jsnum \<Rightarrow> bool" where
  "is_zero (Num a) = (a = 0)"
| "is_zero NegZero = True"
| "is_zero PosInf = False"
| "is_zero NegInf = False"
| "is_zero NaN = False"

fun is_inf :: "jsnum \<Rightarrow> bool" where
  "is_inf PosInf = True"
| "is_inf NegInf = True"
| "is_inf (Num a) = False"
| "is_inf NegZero = False"
| "is_inf NaN = False"

fun finite_value :: "jsnum \<Rightarrow> real" where
  "finite_value (Num a) = a"
| "finite_value NegZero = 0"
| "finite_value PosInf = 0"
| "finite_value NegInf = 0"
| "finite_value NaN = 0"

text \<open>The zero and the infinity of a given sign.\<close>

definition signed_zero :: "bool \<Rightarrow> jsnum" where
  "signed_zero positive = (if positive then Num 0 else NegZero)"

definition signed_inf :: "bool \<Rightarrow> jsnum" where
  "signed_inf positive = (if positive then PosInf else NegInf)"

fun jneg :: "jsnum \<Rightarrow> jsnum" where
  "jneg (Num a) = (if a = 0 then NegZero else Num (- a))"
| "jneg NegZero = Num 0"
| "jneg PosInf = NegInf"
| "jneg NegInf = PosInf"
| "jneg NaN = NaN"

text \<open>Addition: a sum that is zero is \<open>+0\<close>, except \<open>-0 + -0\<close>; opposite infinities give
  \<open>NaN\<close>.\<close>

fun jadd :: "jsnum \<Rightarrow> jsnum \<Rightarrow> jsnum" where
  "jadd NaN _ = NaN"
| "jadd _ NaN = NaN"
| "jadd NegZero NegZero = NegZero"
| "jadd NegZero b = b"
| "jadd a NegZero = a"
| "jadd (Num a) (Num b) = Num (a + b)"
| "jadd PosInf NegInf = NaN"
| "jadd NegInf PosInf = NaN"
| "jadd PosInf _ = PosInf"
| "jadd _ PosInf = PosInf"
| "jadd NegInf _ = NegInf"
| "jadd _ NegInf = NegInf"

definition jsub :: "jsnum \<Rightarrow> jsnum \<Rightarrow> jsnum" where
  "jsub a b = jadd a (jneg b)"

text \<open>Multiplication and division: the sign of the result is positive exactly when the
  operands have the same sign; an infinity times a zero, a zero by a zero and an
  infinity by an infinity are \<open>NaN\<close>.\<close>

definition jmul :: "jsnum \<Rightarrow> jsnum \<Rightarrow> jsnum" where
  "jmul a b =
     (if a = NaN \<or> b = NaN then NaN
      else if is_inf a \<or> is_inf b then
        (if is_zero a \<or> is_zero b then NaN else signed_inf (negative a = negative b))
      else if is_zero a \<or> is_zero b then signed_zero (negative a = negative b)
      else Num (finite_value a * finite_value b))"

definition jdiv :: "jsnum \<Rightarrow> jsnum \<Rightarrow> jsnum" where
  "jdiv a b =
     (if a = NaN \<or> b = NaN then NaN
      else if is_inf a then
        (if is_inf b then NaN else signed_inf (negative a = negative b))
      else if is_inf b then signed_zero (negative a = negative b)
      else if is_zero b then
        (if is_zero a then NaN else signed_inf (negative a = negative b))
      else if is_zero a then signed_zero (negative a = negative b)
      else Num (finite_value a / finite_value b))"

text \<open>Comparisons: every comparison with \<open>NaN\<close> is false, and the two zeros are equal.\<close>

fun jlt :: "jsnum \<Rightarrow> jsnum \<Rightarrow> bool" where
  "jlt NaN _ = False"
| "jlt _ NaN = False"
| "jlt (Num a) (Num b) = (a < b)"
| "jlt (Num a) NegZero = (a < 0)"
| "jlt NegZero (Num b) = (0 < b)"
| "jlt NegZero NegZero = False"
| "jlt NegInf NegInf = False"
| "jlt NegInf _ = True"
| "jlt PosInf _ = False"
| "jlt _ PosInf = True"
| "jlt _ NegInf = False"

definition jseq :: "jsnum \<Rightarrow> jsnum \<Rightarrow> bool" where
  "jseq a b = (a \<noteq> NaN \<and> b \<noteq> NaN \<and> (a = b \<or> (is_zero a \<and> is_zero b)))"

definition jle :: "jsnum \<Rightarrow> jsnum \<Rightarrow> bool" where
  "jle a b = (jlt a b \<or> jseq a b)"

definition jgt :: "jsnum \<Rightarrow> jsnum \<Rightarrow> bool" where
  "jgt a b = jlt b a"

definition jge :: "jsnum \<Rightarrow> jsnum \<Rightarrow> bool" where
  "jge a b = jle b a"

text \<open>\<^verbatim>\<open>Math.min\<close>, \<^verbatim>\<open>Math.max\<close> (for which \<open>-0\<close> is below \<open>+0\<close>), \<^verbatim>\<open>Math.abs\<close>, \<^verbatim>\<open>Math.log10\<close>,
  \<^verbatim>\<open>Math.sqrt\<close>, and \<^verbatim>\<open>Math.pow\<close> with a natural exponent, as the source uses it.\<close>

definition Math_min :: "jsnum \<Rightarrow> jsnum \<Rightarrow> jsnum" where
  "Math_min a b =
     (if a = NaN \<or> b = NaN then NaN
      else if jlt b a then b
      else if jlt a b then a
      else if a = NegZero \<or> b = NegZero then NegZero
      else a)"

definition Math_max :: "jsnum \<Rightarrow> jsnum \<Rightarrow> jsnum" where
  "Math_max a b =
     (if a = NaN \<or> b = NaN then NaN
      else if jlt a b then b
      else if jlt b a then a
      else if a = Num 0 \<or> b = Num 0 then Num 0
      else a)"

fun Math_abs :: "jsnum \<Rightarrow> jsnum" where
  "Math_abs (Num a) = Num \<bar>a\<bar>"
| "Math_abs NegZero = Num 0"
| "Math_abs PosInf = PosInf"
| "Math_abs NegInf = PosInf"
| "Math_abs NaN = NaN"

fun Math_log10 :: "jsnum \<Rightarrow> jsnum" where
  "Math_log10 (Num a) = (if a < 0 then NaN else if a = 0 then NegInf else Num (log 10 a))"
| "Math_log10 NegZero = NegInf"
| "Math_log10 PosInf = PosInf"
| "Math_log10 NegInf = NaN"
| "Math_log10 NaN = NaN"

fun Math_sqrt :: "jsnum \<Rightarrow> jsnum" where
  "Math_sqrt (Num a) = (if a < 0 then NaN else Num (sqrt a))"
| "Math_sqrt NegZero = NegZero"
| "Math_sqrt PosInf = PosInf"
| "Math_sqrt NegInf = NaN"
| "Math_sqrt NaN = NaN"

fun Math_pow :: "jsnum \<Rightarrow> nat \<Rightarrow> jsnum" where
  "Math_pow x 0 = Num 1"
| "Math_pow (Num a) n = Num (a ^ n)"
| "Math_pow NegZero n = (if even n then Num 0 else NegZero)"
| "Math_pow PosInf n = PosInf"
| "Math_pow NegInf n = (if even n then PosInf else NegInf)"
| "Math_pow NaN n = NaN"

section \<open>BitcoinDominanceAnalyzer\<close>

record cycle_phase =
  name :: string
  strength :: string
  description :: string

record market_impact =
  btcImpact :: jsnum
  altcoinImpact :: jsnum

record recommendation =
  rec_type :: string
  action :: string
  confidence :: string

text \<open>\<^verbatim>\<open>this.cyclePhases\<close> and \<^verbatim>\<open>this.thresholds.DOMINANCE\<close> of the constructor
  (\<open>HIGH\<close>, \<open>MEDIUM\<close>, \<open>LOW\<close>, prefixed here since the volatility thresholds of the
  analyser carry the same names).\<close>

definition BTC_DOMINANCE :: string where "BTC_DOMINANCE = ''btc_dominance''"
definition ALTCOIN_SEASON :: string where "ALTCOIN_SEASON = ''altcoin_season''"
definition TRANSITION :: string where "TRANSITION = ''transition''"
definition ACCUMULATION :: string where "ACCUMULATION = ''accumulation''"

definition DOMINANCE_HIGH :: jsnum where "DOMINANCE_HIGH = Num 60"
definition DOMINANCE_MEDIUM :: jsnum where "DOMINANCE_MEDIUM = Num 45"
definition DOMINANCE_LOW :: jsnum where "DOMINANCE_LOW = Num 35"

text \<open>The accented letters of the source's texts are written as their UTF-8 bytes.\<close>

definition determineCyclePhase :: "jsnum \<Rightarrow> cycle_phase" where
  "determineCyclePhase dominance =
     (if jge dominance DOMINANCE_HIGH then
        \<lparr>name = BTC_DOMINANCE, strength = ''high'',
         description = ''Dominio fuerte de Bitcoin''\<rparr>
      else if jle dominance DOMINANCE_LOW then
        \<lparr>name = ALTCOIN_SEASON, strength = ''high'',
         description = ''Temporada favorable para altcoins''\<rparr>
      else if jlt dominance DOMINANCE_MEDIUM then
        \<lparr>name = TRANSITION, strength = ''medium'',
         description = ''Fase de transici'' @ [CHR 0xC3, CHR 0xB3] @ ''n''\<rparr>
      else
        \<lparr>name = ACCUMULATION, strength = ''medium'',
         description = ''Fase de acumulaci'' @ [CHR 0xC3, CHR 0xB3] @ ''n''\<rparr>)"

definition calculateBTCImpact :: "jsnum \<Rightarrow> jsnum" where
  "calculateBTCImpact dominance =
     (if jge dominance DOMINANCE_HIGH then Num 1.2
      else if jle dominance DOMINANCE_LOW then Num 0.8
      else Num 1.0)"

definition calculateAltcoinImpact :: "jsnum \<Rightarrow> jsnum" where
  "calculateAltcoinImpact dominance = jsub (Num 2) (calculateBTCImpact dominance)"

definition assessMarketImpact :: "jsnum \<Rightarrow> market_impact" where
  "assessMarketImpact dominance =
     \<lparr>btcImpact = calculateBTCImpact dominance,
      altcoinImpact = calculateAltcoinImpact dominance\<rparr>"

definition generateRecommendations :: "jsnum \<Rightarrow> recommendation list" where
  "generateRecommendations dominance =
     (let p = determineCyclePhase dominance in
      if name p = BTC_DOMINANCE then
        [\<lparr>rec_type = ''BTC_FOCUS'', action = ''Priorizar Bitcoin'', confidence = ''Alta''\<rparr>]
      else if name p = ALTCOIN_SEASON then
        [\<lparr>rec_type = ''ALT_FOCUS'',
          action = ''Considerar altcoins de alta capitalizaci'' @ [CHR 0xC3, CHR 0xB3] @ ''n'',
          confidence = ''Alta''\<rparr>]
      else if name p = TRANSITION then
        [\<lparr>rec_type = ''MIXED'', action = ''Diversificar entre BTC y altcoins selectas'',
          confidence = ''Media''\<rparr>]
      else
        [\<lparr>rec_type = ''CONSERVATIVE'', action = ''Mantener posiciones conservadoras'',
          confidence = ''Media''\<rparr>])"

record dominance_state =
  currentDominance :: jsnum
  phase :: cycle_phase
  impact :: market_impact
  recommendations :: "recommendation list"

section \<open>AdvancedCryptoAnalyzer: data\<close>

text \<open>
  A coin of the market-data response: \<^verbatim>\<open>coinData.name\<close>, \<^verbatim>\<open>coinData.symbol\<close> and the
  fields of \<^verbatim>\<open>coinData.quote.USD\<close>. A percent change may be \<^verbatim>\<open>null\<close> (\<open>None\<close>), which
  \<^verbatim>\<open>performBaseAnalysis\<close> filters out. Field names that two objects of the source share
  are prefixed (\<open>coin_name\<close>, \<open>basic_name\<close>, \<open>risk_score\<close>).
\<close>

record coin =
  coin_name :: string
  coin_symbol :: string
  usd_price :: jsnum
  market_cap :: jsnum
  volume_24h :: jsnum
  percent_change_1h :: "jsnum option"
  percent_change_24h :: "jsnum option"
  percent_change_7d :: "jsnum option"
  percent_change_30d :: "jsnum option"

record basic_info =
  basic_name :: string
  symbol :: string
  price :: jsnum
  marketCap :: jsnum
  volume24h :: jsnum

record scored =
  score :: jsnum
  category :: string

record metric_set =
  marketMaturity :: scored
  volumeHealth :: scored
  momentum :: jsnum
  volatility :: scored

record performance_info =
  change1h :: "jsnum option"
  change24h :: "jsnum option"
  change7d :: "jsnum option"
  change30d :: "jsnum option"

record risk =
  level :: string
  risk_score :: jsnum

text \<open>The analysis object as \<^verbatim>\<open>performBaseAnalysis\<close> first builds it, then with the three
  scores it assigns, then with the two fields \<^verbatim>\<open>adjustForBTCDominance\<close> adds.\<close>

record analysis_base =
  basic :: basic_info
  metrics :: metric_set
  performance :: performance_info
  isOnCoinbase :: bool

record analysis = analysis_base +
  investmentScore :: jsnum
  riskLevel :: risk
  potentialReturn :: jsnum

record adjusted_analysis = analysis +
  btcDominance :: dominance_state
  adjustedScore :: jsnum

text \<open>\<^verbatim>\<open>this.constants\<close> of the constructor.\<close>

definition MICRO_CAP :: jsnum where "MICRO_CAP = Num 50000000"
definition SMALL_CAP :: jsnum where "SMALL_CAP = Num 250000000"
definition MID_CAP :: jsnum where "MID_CAP = Num 1000000000"
definition LARGE_CAP :: jsnum where "LARGE_CAP = Num 10000000000"

definition VOLATILITY_LOW :: jsnum where "VOLATILITY_LOW = Num 5"
definition VOLATILITY_MEDIUM :: jsnum where "VOLATILITY_MEDIUM = Num 15"
definition VOLATILITY_HIGH :: jsnum where "VOLATILITY_HIGH = Num 25"

definition HEALTHY :: jsnum where "HEALTHY = Num 0.15"
definition STRONG :: jsnum where "STRONG = Num 0.30"
definition EXCEPTIONAL :: jsnum where "EXCEPTIONAL = Num 0.50"

section \<open>AdvancedCryptoAnalyzer: metrics and scores\<close>

definition calculateMarketMaturity :: "jsnum \<Rightarrow> scored" where
  "calculateMarketMaturity mc =
     (if jge mc LARGE_CAP then \<lparr>score = Num 1.0, category = ''Establecido''\<rparr>
      else if jge mc MID_CAP then \<lparr>score = Num 1.5, category = ''Maduro''\<rparr>
      else if jge mc SMALL_CAP then \<lparr>score = Num 2.0, category = ''En Desarrollo''\<rparr>
      else if jge mc MICRO_CAP then \<lparr>score = Num 2.5, category = ''Emergente''\<rparr>
      else \<lparr>score = Num 3.0, category = ''Especulativo''\<rparr>)"

definition calculateVolumeHealth :: "jsnum \<Rightarrow> scored" where
  "calculateVolumeHealth volumeRatio =
     (let normalizedRatio = Math_min volumeRatio EXCEPTIONAL;
          volumeScore = jdiv (Math_log10 (jadd (jmul normalizedRatio (Num 100)) (Num 1)))
                             (Math_log10 (jadd (jmul EXCEPTIONAL (Num 100)) (Num 1)))
      in \<lparr>score = volumeScore,
          category = (if jge volumeRatio EXCEPTIONAL then ''Excepcional''
                      else if jge volumeRatio STRONG then ''Fuerte''
                      else if jge volumeRatio HEALTHY then ''Saludable''
                      else ''Bajo'')\<rparr>)"

text \<open>
  \<^verbatim>\<open>xs.length > 0 ? xs.reduce((a, b) => a + b) / xs.length : 0\<close>: the reduction without an
  initial value starts from the first element, and the guard keeps it away from the
  empty array.
\<close>

definition average_or_zero :: "jsnum list \<Rightarrow> jsnum" where
  "average_or_zero xs =
     (case xs of
        [] \<Rightarrow> Num 0
      | y # ys \<Rightarrow> jdiv (foldl jadd y ys) (Num (real (length xs))))"

definition calculateMomentumIndicator :: "jsnum list \<Rightarrow> jsnum" where
  "calculateMomentumIndicator priceChanges =
     (let gains = filter (\<lambda>x. jgt x (Num 0)) priceChanges;
          losses = map Math_abs (filter (\<lambda>x. jlt x (Num 0)) priceChanges);
          avgGain = average_or_zero gains;
          avgLoss = average_or_zero losses
      in if jseq avgLoss (Num 0) then Num 1
         else let RS = jdiv avgGain avgLoss
              in jdiv (jsub (Num 100) (jdiv (Num 100) (jadd (Num 1) RS))) (Num 100))"

text \<open>The local \<^verbatim>\<open>stdDev\<close> of \<^verbatim>\<open>calculateVolatilityScore\<close>: mean, variance and square root,
  both reductions starting from 0 and both divisions by \<^verbatim>\<open>priceChanges.length\<close> unguarded.\<close>

definition stdDev :: "jsnum list \<Rightarrow> jsnum" where
  "stdDev priceChanges =
     (let n = Num (real (length priceChanges));
          mean = jdiv (foldl jadd (Num 0) priceChanges) n;
          variance = jdiv (foldl (\<lambda>a b. jadd a (Math_pow (jsub b mean) 2)) (Num 0) priceChanges) n
      in Math_sqrt variance)"

definition calculateVolatilityScore :: "jsnum list \<Rightarrow> scored" where
  "calculateVolatilityScore priceChanges =
     (let sd = stdDev priceChanges
      in \<lparr>score = Math_min (jdiv sd VOLATILITY_HIGH) (Num 1),
          category = (if jgt sd VOLATILITY_HIGH then ''Alta''
                      else if jgt sd VOLATILITY_MEDIUM then ''Media''
                      else ''Baja'')\<rparr>)"

definition calculateInvestmentScore :: "'a analysis_base_scheme \<Rightarrow> jsnum" where
  "calculateInvestmentScore a =
     (let marketMaturityScore = jmul (jsub (Num 4) (score (marketMaturity (metrics a)))) (Num 2);
          volumeScore = jmul (score (volumeHealth (metrics a))) (Num 10);
          momentumScore = jmul (momentum (metrics a)) (Num 10);
          volatilityAdjustment = Math_max (Num 0) (jsub (Num 1) (score (volatility (metrics a))));
          marketCapOptimality =
            Math_min (Num 10)
              (jmul (Math_log10 (jdiv (Num 100000000000) (marketCap (basic a)))) (Num 2));
          volumeRatio =
            Math_min (Num 10) (jmul (jdiv (volume24h (basic a)) (marketCap (basic a))) (Num 5))
      in Math_max (Num 1) (Math_min (Num 10)
           (jadd (jadd (jadd (jadd (jadd
              (jmul marketMaturityScore (Num 0.2))
              (jmul volumeScore (Num 0.2)))
              (jmul momentumScore (Num 0.25)))
              (jmul volatilityAdjustment (Num 0.15)))
              (jmul marketCapOptimality (Num 0.1)))
              (jmul volumeRatio (Num 0.1)))))"

definition calculateRiskLevel :: "'a analysis_base_scheme \<Rightarrow> risk" where
  "calculateRiskLevel a =
     (let volatilityWeight = jmul (score (volatility (metrics a))) (Num 0.4);
          marketMaturityWeight = jmul (jdiv (score (marketMaturity (metrics a))) (Num 3)) (Num 0.3);
          volumeWeight = jmul (jsub (Num 1) (score (volumeHealth (metrics a)))) (Num 0.3);
          riskScore = jadd (jadd volatilityWeight marketMaturityWeight) volumeWeight
      in \<lparr>level = (if jgt riskScore (Num 0.66) then ''Alto''
                   else if jgt riskScore (Num 0.33) then ''Medio'' else ''Bajo''),
          risk_score = riskScore\<rparr>)"

definition calculatePotentialReturn :: "'a analysis_base_scheme \<Rightarrow> jsnum" where
  "calculatePotentialReturn a =
     (let marketGrowthFactor =
            jmul (Math_log10 (jdiv (Num 100000000000) (marketCap (basic a)))) (Num 0.5);
          volumeHealthFactor = score (volumeHealth (metrics a));
          momentumFactor = momentum (metrics a);
          maturityFactor = jdiv (jsub (Num 4) (score (marketMaturity (metrics a)))) (Num 3);
          potential =
            jmul (jadd (jadd (jadd
                   (jmul marketGrowthFactor (Num 0.4))
                   (jmul volumeHealthFactor (Num 0.2)))
                   (jmul momentumFactor (Num 0.2)))
                   (jmul maturityFactor (Num 0.2)))
                 (Num 10)
      in Math_max (Num 1) (Math_min (Num 10) potential))"

section \<open>AdvancedCryptoAnalyzer: base analysis and dominance adjustment\<close>

text \<open>
  \<^verbatim>\<open>String.prototype.toUpperCase\<close> on the ASCII letters; every other character is left as
  it is. (No character outside ASCII has \<open>B\<close>, \<open>T\<close> or \<open>C\<close> alone as its upper case, so
  the comparison with \<^verbatim>\<open>'BTC'\<close> below is decided by the ASCII letters.)
\<close>

definition toUpperCase_char :: "char \<Rightarrow> char" where
  "toUpperCase_char c =
     (case map_of (zip ''abcdefghijklmnopqrstuvwxyz'' ''ABCDEFGHIJKLMNOPQRSTUVWXYZ'') c of
        Some u \<Rightarrow> u
      | None \<Rightarrow> c)"

definition toUpperCase :: "string \<Rightarrow> string" where
  "toUpperCase s = map toUpperCase_char s"

definition performBaseAnalysis :: "string set \<Rightarrow> coin \<Rightarrow> analysis" where
  "performBaseAnalysis coinbaseTokens coinData =
     (let priceChanges =
            map the (filter (\<lambda>x. x \<noteq> None)
              [percent_change_1h coinData, percent_change_24h coinData,
               percent_change_7d coinData, percent_change_30d coinData]);
          a = \<lparr>basic = \<lparr>basic_name = coin_name coinData, symbol = coin_symbol coinData,
                       price = usd_price coinData, marketCap = market_cap coinData,
                       volume24h = volume_24h coinData\<rparr>,
               metrics = \<lparr>marketMaturity = calculateMarketMaturity (market_cap coinData),
                          volumeHealth =
                            calculateVolumeHealth (jdiv (volume_24h coinData) (market_cap coinData)),
                          momentum = calculateMomentumIndicator priceChanges,
                          volatility = calculateVolatilityScore priceChanges\<rparr>,
               performance = \<lparr>change1h = percent_change_1h coinData,
                              change24h = percent_change_24h coinData,
                              change7d = percent_change_7d coinData,
                              change30d = percent_change_30d coinData\<rparr>,
               isOnCoinbase = (coin_symbol coinData \<in> coinbaseTokens)\<rparr>
      in \<lparr>basic = basic a, metrics = metrics a, performance = performance a,
          isOnCoinbase = isOnCoinbase a,
          investmentScore = calculateInvestmentScore a,
          riskLevel = calculateRiskLevel a,
          potentialReturn = calculatePotentialReturn a\<rparr>)"

definition adjustForBTCDominance :: "analysis \<Rightarrow> dominance_state \<Rightarrow> adjusted_analysis" where
  "adjustForBTCDominance a d =
     (let isBTC = (toUpperCase (symbol (basic a)) = ''BTC'');
          dominanceImpact = (if isBTC then btcImpact (impact d) else altcoinImpact (impact d))
      in \<lparr>basic = basic a, metrics = metrics a, performance = performance a,
          isOnCoinbase = isOnCoinbase a,
          investmentScore = investmentScore a,
          riskLevel = riskLevel a,
          potentialReturn = potentialReturn a,
          btcDominance = d,
          adjustedScore = jmul (investmentScore a) dominanceImpact\<rparr>)"

section \<open>Requests, the log and the scan\<close>

text \<open>
  A thrown \<^verbatim>\<open>Error\<close> is a value carrying its message. The collaborators are the
  environment: the listings response, the quote response for an (upper-cased) symbol
  (\<open>None\<close> when the response has no entry under that key), the answer of the \<open>k\<close>-th
  dominance request, and the set of Coinbase tokens. The state counts the dominance
  requests issued and keeps the messages logged. \<^verbatim>\<open>log\<close> (here \<open>log_msg\<close>) catches its
  own failures, so it never throws; the model records the message.
\<close>

datatype error = Error string

fun message :: "error \<Rightarrow> string" where
  "message (Error m) = m"

record env =
  listings_response :: "error + coin list"
  quote_response :: "string \<Rightarrow> error + coin option"
  dominance_response :: "nat \<Rightarrow> error + jsnum"
  coinbaseTokens :: "string set"

record io_state =
  dominanceFetches :: nat
  logged :: "string list"

definition log_msg :: "string \<Rightarrow> io_state \<Rightarrow> io_state" where
  "log_msg msg st = st\<lparr>logged := logged st @ [msg]\<rparr>"

definition getCurrentDominance :: "env \<Rightarrow> io_state \<Rightarrow> (error + jsnum) \<times> io_state" where
  "getCurrentDominance e st =
     (let st' = st\<lparr>dominanceFetches := Suc (dominanceFetches st)\<rparr>
      in case dominance_response e (dominanceFetches st) of
           Inl err \<Rightarrow> (Inl (Error (''Error obteniendo dominancia BTC: '' @ message err)), st')
         | Inr d \<Rightarrow> (Inr d, st'))"

text \<open>The object \<^verbatim>\<open>analyzeMarketCycle\<close> builds from the dominance it has read.\<close>

definition marketCycle :: "jsnum \<Rightarrow> dominance_state" where
  "marketCycle d =
     \<lparr>currentDominance = d, phase = determineCyclePhase d,
      impact = assessMarketImpact d,
      recommendations = generateRecommendations d\<rparr>"

definition analyzeMarketCycle :: "env \<Rightarrow> io_state \<Rightarrow> (error + dominance_state) \<times> io_state" where
  "analyzeMarketCycle e st =
     (case getCurrentDominance e st of
        (Inl err, st') \<Rightarrow>
          (Inl (Error (''Error en an'' @ [CHR 0xC3, CHR 0xA1] @ ''lisis de ciclo: '' @ message err)),
           st')
      | (Inr d, st') \<Rightarrow> (Inr (marketCycle d), st'))"

text \<open>
  \<^verbatim>\<open>analyzeToken\<close> issues the quote request and its own \<^verbatim>\<open>analyzeMarketCycle()\<close> together
  (\<^verbatim>\<open>Promise.all\<close>): both requests are always made. When both fail, the model reports the
  quote's error (which rejection arrives first is not decided by the code).
\<close>

definition analyzeToken :: "env \<Rightarrow> string \<Rightarrow> io_state \<Rightarrow> (error + adjusted_analysis) \<times> io_state" where
  "analyzeToken e tokenSymbol st =
     (let tokenData = quote_response e (toUpperCase tokenSymbol);
          (dom, st') = analyzeMarketCycle e st;
          failed = (\<lambda>err. Inl (Error (''Error analizando '' @ tokenSymbol @ '': '' @ message err)))
      in case tokenData of
           Inl err \<Rightarrow> (failed err, st')
         | Inr coinData \<Rightarrow>
             (case dom of
                Inl err \<Rightarrow> (failed err, st')
              | Inr btcDom \<Rightarrow>
                  (case coinData of
                     None \<Rightarrow> (failed (Error ''Token no encontrado''), st')
                   | Some c \<Rightarrow>
                       (Inr (adjustForBTCDominance (performBaseAnalysis (coinbaseTokens e) c) btcDom),
                        st'))))"

text \<open>
  \<^verbatim>\<open>Array.prototype.sort(comparefn)\<close>: a stable sort; an element moves behind another only
  when the comparison is positive (a \<open>NaN\<close> comparison counts as 0). With a comparison
  function that is not consistent the order is the implementation's choice; the
  insertion sort below is one such choice.
\<close>

fun sort_insert :: "('a \<Rightarrow> 'a \<Rightarrow> jsnum) \<Rightarrow> 'a \<Rightarrow> 'a list \<Rightarrow> 'a list" where
  "sort_insert cmp x [] = [x]"
| "sort_insert cmp x (y # ys) =
     (if jgt (cmp x y) (Num 0) then y # sort_insert cmp x ys else x # y # ys)"

definition js_sort :: "('a \<Rightarrow> 'a \<Rightarrow> jsnum) \<Rightarrow> 'a list \<Rightarrow> 'a list" where
  "js_sort cmp xs = foldr (sort_insert cmp) xs []"

text \<open>The comparison function and the expression returned by \<^verbatim>\<open>scanTopOpportunities\<close>:
  \<^verbatim>\<open>opportunities.sort((a, b) => b.adjustedScore - a.adjustedScore).slice(0, 10)\<close>.\<close>

definition byAdjustedScore :: "adjusted_analysis \<Rightarrow> adjusted_analysis \<Rightarrow> jsnum" where
  "byAdjustedScore a b = jsub (adjustedScore b) (adjustedScore a)"

definition sortAndSlice :: "adjusted_analysis list \<Rightarrow> adjusted_analysis list" where
  "sortAndSlice opportunities = take 10 (js_sort byAdjustedScore opportunities)"

text \<open>The \<^verbatim>\<open>for\<close> loop of \<^verbatim>\<open>scanTopOpportunities\<close>, with its \<^verbatim>\<open>try\<close>/\<^verbatim>\<open>catch\<close> around each coin.\<close>

fun scanLoop ::
  "env \<Rightarrow> coin list \<Rightarrow> adjusted_analysis list \<Rightarrow> io_state \<Rightarrow> adjusted_analysis list \<times> io_state"
where
  "scanLoop e [] opportunities st = (opportunities, st)"
| "scanLoop e (c # cs) opportunities st =
     (case analyzeToken e (coin_symbol c) st of
        (Inr a, st') \<Rightarrow> scanLoop e cs (opportunities @ [a]) st'
      | (Inl err, st') \<Rightarrow>
          scanLoop e cs opportunities
            (log_msg (''Error analizando '' @ coin_symbol c @ '': '' @ message err) st'))"

definition scanTopOpportunities ::
  "env \<Rightarrow> io_state \<Rightarrow> (error + adjusted_analysis list) \<times> io_state"
where
  "scanTopOpportunities e st =
     (case listings_response e of
        Inl err \<Rightarrow> (Inl (Error (''Error escaneando oportunidades: '' @ message err)), st)
      | Inr coins \<Rightarrow>
          (case scanLoop e coins [] st of
             (opportunities, st') \<Rightarrow> (Inr (sortAndSlice opportunities), st')))"

section \<open>Notions used by the properties\<close>

text \<open>A letter-case variant of \<open>BTC\<close>: three characters, each the upper or the lower case of
  the corresponding letter.\<close>

definition caseVariantOfBTC :: "string \<Rightarrow> bool" where
  "caseVariantOfBTC s =
     (case s of
        [x, y, z] \<Rightarrow>
          x \<in> {CHR ''b'', CHR ''B''} \<and> y \<in> {CHR ''t'', CHR ''T''} \<and> z \<in> {CHR ''c'', CHR ''C''}
      | _ \<Rightarrow> False)"

text \<open>What \<^verbatim>\<open>analyzeToken\<close> returns for a symbol when its dominance request is the \<open>k\<close>-th
  one of the run; the messages logged so far play no part in it.\<close>

definition outcome :: "env \<Rightarrow> nat \<Rightarrow> string \<Rightarrow> error + adjusted_analysis" where
  "outcome e k s = fst (analyzeToken e s \<lparr>dominanceFetches = k, logged = []\<rparr>)"


text \<open>The analyses that survive a scan of the listed coins, in the order of the listing;
  the first coin's dominance request is the \<open>k\<close>-th of the run.\<close>

definition surviving :: "env \<Rightarrow> nat \<Rightarrow> coin list \<Rightarrow> adjusted_analysis list" where
  "surviving e k cs =
     List.map_filter
       (\<lambda>(i, c). case outcome e i (coin_symbol c) of Inr a \<Rightarrow> Some a | Inl err \<Rightarrow> None)
       (enumerate k cs)"

section \<open>Example inputs\<close>

text \<open>The analysis object of the repository's test suite (\<^verbatim>\<open>mockAnalysis\<close>), given a name
  and a symbol.\<close>

definition mockAnalysis :: analysis_base where
  "mockAnalysis =
     \<lparr>basic = \<lparr>basic_name = ''Bitcoin'', symbol = ''BTC'', price = Num 50000,
                marketCap = Num 1000000000000, volume24h = Num 50000000000\<rparr>,
      metrics = \<lparr>marketMaturity = \<lparr>score = Num 1.5, category = ''Maduro''\<rparr>,
                  volumeHealth = \<lparr>score = Num 0.8, category = ''Bajo''\<rparr>,
                  momentum = Num 0.7,
                  volatility = \<lparr>score = Num 0.4, category = ''Baja''\<rparr>\<rparr>,
      performance = \<lparr>change1h = Some (Num 1), change24h = Some (Num 5),
                      change7d = Some (Num 10), change30d = Some (Num 20)\<rparr>,
      isOnCoinbase = False\<rparr>"

text \<open>The same analysis with another symbol and a given investment score, and with
  another market capitalisation and volume.\<close>

definition scoredAnalysis :: "string \<Rightarrow> jsnum \<Rightarrow> analysis" where
  "scoredAnalysis sy s =
     \<lparr>basic = (basic mockAnalysis)\<lparr>symbol := sy\<rparr>, metrics = metrics mockAnalysis,
      performance = performance mockAnalysis, isOnCoinbase = False,
      investmentScore = s,
      riskLevel = calculateRiskLevel mockAnalysis,
      potentialReturn = calculatePotentialReturn mockAnalysis\<rparr>"

definition withMarketCap :: "jsnum \<Rightarrow> jsnum \<Rightarrow> analysis_base" where
  "withMarketCap mc vol =
     mockAnalysis\<lparr>basic := (basic mockAnalysis)\<lparr>marketCap := mc, volume24h := vol\<rparr>\<rparr>"

text \<open>Coins of a listing, an environment that answers every quote request from the
  listing itself, and two series of dominance readings.\<close>

definition exampleCoin :: "string \<Rightarrow> jsnum \<Rightarrow> jsnum \<Rightarrow> coin" where
  "exampleCoin s mc vol =
     \<lparr>coin_name = s, coin_symbol = s, usd_price = Num 100, market_cap = mc, volume_24h = vol,
      percent_change_1h = Some (Num 1), percent_change_24h = Some (Num 5),
      percent_change_7d = Some (Num 10), percent_change_30d = Some (Num 20)\<rparr>"

definition batchEnv :: "coin list \<Rightarrow> (nat \<Rightarrow> error + jsnum) \<Rightarrow> env" where
  "batchEnv coins readings =
     \<lparr>listings_response = Inr coins,
      quote_response = (\<lambda>s. Inr (map_of (map (\<lambda>c. (coin_symbol c, c)) coins) s)),
      dominance_response = readings,
      coinbaseTokens = {}\<rparr>"

definition steady :: "nat \<Rightarrow> error + jsnum" where
  "steady k = Inr (Num 45)"

definition moving :: "nat \<Rightarrow> error + jsnum" where
  "moving k = (if k = 0 then Inr (Num 65) else Inr (Num 30))"

definition fiveCoins :: "coin list" where
  "fiveCoins =
     [exampleCoin ''AAA'' (Num 1000000000) (Num 100000000),
      exampleCoin ''BBB'' (Num 1000000000) (Num 100000000),
      exampleCoin ''ZERO'' (Num 0) (Num 100000000),
      exampleCoin ''CCC'' (Num 1000000000) (Num 100000000),
      exampleCoin ''DDD'' (Num 1000000000) (Num 100000000)]"

definition twoCoins :: "coin list" where
  "twoCoins =
     [exampleCoin ''AAA'' (Num 1000000000) (Num 100000000),
      exampleCoin ''BBB'' (Num 1000000000) (Num 100000000)]"

definition nanFirst :: "coin list" where
  "nanFirst =
     [exampleCoin ''ZERO'' (Num 0) (Num 0),
      exampleCoin ''AAA'' (Num 1000000000) (Num 100000000)]"

definition st0 :: io_state where
  "st0 = \<lparr>dominanceFetches = 0, logged = []\<rparr>"

section \<open>Arithmetic of JavaScript numbers\<close>

lemma jadd_NaN_right [simp]: "jadd x NaN = NaN"
  by (cases x) simp_all

lemma jmul_NaN [simp]: "jmul x NaN = NaN" "jmul NaN x = NaN"
  by (simp_all add: jmul_def)

lemma jdiv_NaN [simp]: "jdiv x NaN = NaN" "jdiv NaN x = NaN"
  by (simp_all add: jdiv_def)

lemma jlt_NaN_right [simp]: "jlt x NaN = False"
  by (cases x) simp_all

text \<open>On finite operands the operations are those of the reals wherever no negative zero
  can arise.\<close>

lemma jmul_Num_pos [simp]: "0 < b \<Longrightarrow> jmul (Num a) (Num b) = Num (a * b)"
  by (simp add: jmul_def signed_zero_def)

lemma jmul_Num_nonzero [simp]: "a \<noteq> 0 \<Longrightarrow> b \<noteq> 0 \<Longrightarrow> jmul (Num a) (Num b) = Num (a * b)"
  by (simp add: jmul_def)

lemma jdiv_Num_pos [simp]: "0 < b \<Longrightarrow> jdiv (Num a) (Num b) = Num (a / b)"
  by (simp add: jdiv_def signed_zero_def)

lemma jdiv_Num_nonzero [simp]: "a \<noteq> 0 \<Longrightarrow> b \<noteq> 0 \<Longrightarrow> jdiv (Num a) (Num b) = Num (a / b)"
  by (simp add: jdiv_def)

lemma jdiv_Num_zero [simp]:
  "jdiv (Num a) (Num 0) = (if a = 0 then NaN else signed_inf (0 < a))"
  by (auto simp add: jdiv_def signed_inf_def)

lemma Math_min_Num [simp]: "Math_min (Num a) (Num b) = Num (min a b)"
  by (simp add: Math_min_def min_def)

lemma Math_max_Num [simp]: "Math_max (Num a) (Num b) = Num (max a b)"
  by (simp add: Math_max_def max_def)

lemma Math_min_NaN [simp]: "Math_min x NaN = NaN" "Math_min NaN x = NaN"
  by (simp_all add: Math_min_def)

lemma Math_max_NaN [simp]: "Math_max x NaN = NaN" "Math_max NaN x = NaN"
  by (simp_all add: Math_max_def)

lemma Math_pow_Num [simp]: "Math_pow (Num a) n = Num (a ^ n)"
  by (cases n) simp_all

lemma jsub_Num [simp]: "jsub (Num a) (Num b) = Num (a - b)"
  by (simp add: jsub_def)

lemma jsub_NaN [simp]: "jsub x NaN = NaN" "jsub NaN x = NaN"
  by (simp_all add: jsub_def)

lemma jle_Num [simp]: "jle (Num a) (Num b) \<longleftrightarrow> a \<le> b"
  by (auto simp: jle_def jseq_def)

lemma jge_Num [simp]: "jge (Num a) (Num b) \<longleftrightarrow> b \<le> a"
  by (simp add: jge_def)

lemma jgt_Num [simp]: "jgt (Num a) (Num b) \<longleftrightarrow> b < a"
  by (simp add: jgt_def)

text \<open>On numbers other than \<open>NaN\<close> the comparison \<^verbatim>\<open>b - a > 0\<close> is \<open>a < b\<close>, and \<open>\<ge>\<close> is a
  total preorder.\<close>

lemma cmp_pos_iff:
  "a \<noteq> NaN \<Longrightarrow> b \<noteq> NaN \<Longrightarrow> jgt (jsub b a) (Num 0) \<longleftrightarrow> jlt a b"
  by (cases a; cases b) (auto simp add: jgt_def jsub_def)

lemma jge_total: "a \<noteq> NaN \<Longrightarrow> b \<noteq> NaN \<Longrightarrow> \<not> jlt a b \<Longrightarrow> jge a b"
  by (cases a; cases b) (auto simp add: jge_def jle_def jseq_def)

lemma jlt_jge: "jlt a b \<Longrightarrow> jge b a"
  by (simp add: jge_def jle_def)

lemma jge_trans: "jge a b \<Longrightarrow> jge b c \<Longrightarrow> jge a c"
  by (cases a; cases b; cases c) (auto simp add: jge_def jle_def jseq_def)

lemma jlt_neq: "jlt a b \<Longrightarrow> a \<noteq> b"
  by (cases a; cases b) auto

lemma log51 [simp]: "log 10 51 \<noteq> 0"
proof -
  have "0 < log 10 (51::real)" by simp
  then show ?thesis by linarith
qed

lemmas dominance_defs = DOMINANCE_HIGH_def DOMINANCE_LOW_def DOMINANCE_MEDIUM_def
  BTC_DOMINANCE_def ALTCOIN_SEASON_def TRANSITION_def ACCUMULATION_def

lemmas impact_defs = marketCycle_def assessMarketImpact_def calculateBTCImpact_def
  calculateAltcoinImpact_def

section \<open>The scores and their bounds\<close>


lemma investment_score_in_range:
  assumes "marketCap (basic a) = Num m" "0 < m" "volume24h (basic a) = Num vol"
    "score (marketMaturity (metrics a)) = Num k"
    "score (volumeHealth (metrics a)) = Num v"
    "momentum (metrics a) = Num mo"
    "score (volatility (metrics a)) = Num vo"
  shows "\<exists>r. calculateInvestmentScore a = Num r \<and> 1 \<le> r \<and> r \<le> 10"
proof -
  have l: "Math_log10 (jdiv (Num 100000000000) (Num m)) = Num (log 10 (100000000000 / m))"
    using assms(2) by simp
  show ?thesis
    using assms(2)
    by (simp add: calculateInvestmentScore_def assms(1,3,4,5,6,7) l Let_def)
qed


section \<open>The market cycle\<close>

text \<open>
  Claim C2. For every dominance between 0 and 100, the impacts that \<^verbatim>\<open>assessMarketImpact\<close>
  returns add up to exactly 2, and the Bitcoin impact is 1.2 from a dominance of 60 on,
  0.8 up to a dominance of 35, and 1.0 in between.
\<close>

theorem impacts_sum_to_two:
  "0 \<le> d \<Longrightarrow> d \<le> 100 \<Longrightarrow>
   jadd (btcImpact (assessMarketImpact (Num d))) (altcoinImpact (assessMarketImpact (Num d)))
     = Num 2 \<and>
   btcImpact (assessMarketImpact (Num d)) =
     (if 60 \<le> d then Num 1.2 else if d \<le> 35 then Num 0.8 else Num 1.0)"
  by (simp add: assessMarketImpact_def calculateBTCImpact_def calculateAltcoinImpact_def
      dominance_defs)

theorem impacts_sum_to_two_witness:
  "(0::real) \<le> 45.5 \<and> (45.5::real) \<le> 100 \<and>
   jadd (btcImpact (assessMarketImpact (Num 45.5))) (altcoinImpact (assessMarketImpact (Num 45.5)))
     = Num 2 \<and>
   btcImpact (assessMarketImpact (Num 45.5)) = Num 1"
  using impacts_sum_to_two [of "45.5"] by auto

text \<open>
  Claim C3. \<^verbatim>\<open>determineCyclePhase\<close> classifies a dominance by its rules in their order: from
  60 on the phase is \<open>btc_dominance\<close> (strength high); else up to 35 it is \<open>altcoin_season\<close>
  (high); else below 45 it is \<open>transition\<close> (medium); else it is \<open>accumulation\<close> (medium).
  So 65 gives \<open>btc_dominance\<close>, 35 gives \<open>altcoin_season\<close>, and 45 gives \<open>accumulation\<close>,
  not \<open>transition\<close>.
\<close>

theorem cycle_phase_ordered_rules:
  "(60 \<le> d \<longrightarrow> name (determineCyclePhase (Num d)) = ''btc_dominance'' \<and>
               strength (determineCyclePhase (Num d)) = ''high'') \<and>
   (d \<le> 35 \<longrightarrow> name (determineCyclePhase (Num d)) = ''altcoin_season'' \<and>
               strength (determineCyclePhase (Num d)) = ''high'') \<and>
   (35 < d \<and> d < 45 \<longrightarrow> name (determineCyclePhase (Num d)) = ''transition'' \<and>
               strength (determineCyclePhase (Num d)) = ''medium'') \<and>
   (45 \<le> d \<and> d < 60 \<longrightarrow> name (determineCyclePhase (Num d)) = ''accumulation'' \<and>
               strength (determineCyclePhase (Num d)) = ''medium'') \<and>
   name (determineCyclePhase (Num 65)) = ''btc_dominance'' \<and>
   name (determineCyclePhase (Num 35)) = ''altcoin_season'' \<and>
   name (determineCyclePhase (Num 45)) = ''accumulation'' \<and>
   name (determineCyclePhase (Num 45)) \<noteq> ''transition''"
  by (simp add: determineCyclePhase_def dominance_defs)

theorem cycle_phase_ordered_rules_witness:
  "(45::real) \<le> 45 \<and> (45::real) < 60 \<and>
   name (determineCyclePhase (Num 45)) = ''accumulation'' \<and>
   strength (determineCyclePhase (Num 45)) = ''medium''"
  using cycle_phase_ordered_rules [of 45] by simp

section \<open>The dominance adjustment\<close>

lemma toUpperCase_BTC: "toUpperCase s = ''BTC'' \<longleftrightarrow> caseVariantOfBTC s"
proof -
  have up: "toUpperCase_char c = CHR ''B'' \<longleftrightarrow> c = CHR ''b'' \<or> c = CHR ''B''"
    "toUpperCase_char c = CHR ''T'' \<longleftrightarrow> c = CHR ''t'' \<or> c = CHR ''T''"
    "toUpperCase_char c = CHR ''C'' \<longleftrightarrow> c = CHR ''c'' \<or> c = CHR ''C''" for c
    by (simp_all add: toUpperCase_char_def)
  show ?thesis
    by (auto simp add: toUpperCase_def caseVariantOfBTC_def up split: list.splits)
qed

text \<open>
  Claim C4, as the code has it. \<^verbatim>\<open>adjustForBTCDominance\<close> multiplies the investment score by
  the Bitcoin impact when the symbol, put in upper case, is \<open>BTC\<close>, and by the altcoin
  impact otherwise. For a non-zero investment score, an applied impact other than 1.0
  gives an adjusted score that differs from the investment score. At a dominance of 65,
  an asset whose upper-cased symbol is not \<open>BTC\<close> and whose investment score is positive
  gets that score times 0.8, which is strictly less than the score.
\<close>

theorem adjusted_score_by_uppercased_symbol:
  "adjustedScore (adjustForBTCDominance a d) =
     jmul (investmentScore a)
       (if toUpperCase (symbol (basic a)) = ''BTC'' then btcImpact (impact d)
        else altcoinImpact (impact d)) \<and>
   (investmentScore a = Num s \<and> s \<noteq> 0 \<and>
    (if toUpperCase (symbol (basic a)) = ''BTC'' then btcImpact (impact d)
     else altcoinImpact (impact d)) \<noteq> Num 1
      \<longrightarrow> adjustedScore (adjustForBTCDominance a d) \<noteq> investmentScore a) \<and>
   (investmentScore a = Num s \<and> 0 < s \<and> toUpperCase (symbol (basic a)) \<noteq> ''BTC''
      \<longrightarrow> adjustedScore (adjustForBTCDominance a (marketCycle (Num 65))) = Num (s * 0.8) \<and>
          jlt (adjustedScore (adjustForBTCDominance a (marketCycle (Num 65))))
              (investmentScore a))"
proof -
  have neq: "jmul (Num s) i \<noteq> Num s" if "s \<noteq> 0" "i \<noteq> Num 1" for i
    using that by (cases i) (auto simp: jmul_def signed_inf_def signed_zero_def)
  show ?thesis
    by (auto simp add: adjustForBTCDominance_def neq impact_defs dominance_defs)
qed

theorem adjusted_score_by_uppercased_symbol_witness:
  "investmentScore (scoredAnalysis ''ETH'' (Num 5)) = Num 5 \<and> (5::real) \<noteq> 0 \<and> (0::real) < 5 \<and>
   toUpperCase (symbol (basic (scoredAnalysis ''ETH'' (Num 5)))) \<noteq> ''BTC'' \<and>
   altcoinImpact (impact (marketCycle (Num 65))) \<noteq> Num 1 \<and>
   adjustedScore (adjustForBTCDominance (scoredAnalysis ''ETH'' (Num 5)) (marketCycle (Num 65)))
     = Num 4 \<and>
   adjustedScore (adjustForBTCDominance (scoredAnalysis ''ETH'' (Num 5)) (marketCycle (Num 65)))
     \<noteq> investmentScore (scoredAnalysis ''ETH'' (Num 5)) \<and>
   jlt (adjustedScore (adjustForBTCDominance (scoredAnalysis ''ETH'' (Num 5)) (marketCycle (Num 65))))
       (investmentScore (scoredAnalysis ''ETH'' (Num 5)))"
  using adjusted_score_by_uppercased_symbol
    [of "scoredAnalysis ''ETH'' (Num 5)" "marketCycle (Num 65)" 5]
  by (simp add: scoredAnalysis_def impact_defs dominance_defs toUpperCase_def
      toUpperCase_char_def)

text \<open>
  Claim C4 as it is written fails for a symbol in lower case: \<open>btc\<close> is not the string
  \<open>BTC\<close>, yet at a dominance of 65 an investment score of 5 becomes 6 (the Bitcoin impact
  1.2), not 4 (the altcoin impact 0.8).
\<close>

theorem lowercase_btc_gets_btc_impact:
  "symbol (basic (scoredAnalysis ''btc'' (Num 5))) \<noteq> ''BTC'' \<and>
   adjustedScore (adjustForBTCDominance (scoredAnalysis ''btc'' (Num 5)) (marketCycle (Num 65)))
     = Num 6 \<and>
   jmul (investmentScore (scoredAnalysis ''btc'' (Num 5)))
        (altcoinImpact (impact (marketCycle (Num 65)))) = Num 4"
  by (simp add: adjustForBTCDominance_def toUpperCase_def toUpperCase_char_def
      scoredAnalysis_def impact_defs dominance_defs)

text \<open>
  Claim C10. The test for Bitcoin in \<^verbatim>\<open>adjustForBTCDominance\<close> ignores letter case: an
  analysis whose symbol is a letter-case variant of \<open>BTC\<close> gets the Bitcoin impact, and
  every other symbol gets the altcoin impact.
\<close>

theorem btc_test_is_case_insensitive:
  "adjustedScore (adjustForBTCDominance a d) =
     jmul (investmentScore a)
       (if caseVariantOfBTC (symbol (basic a)) then btcImpact (impact d)
        else altcoinImpact (impact d))"
  by (simp add: adjustForBTCDominance_def toUpperCase_BTC)

theorem btc_test_is_case_insensitive_witness:
  "caseVariantOfBTC ''Btc'' \<and>
   adjustedScore (adjustForBTCDominance (scoredAnalysis ''Btc'' (Num 5)) (marketCycle (Num 65)))
     = Num 6 \<and>
   \<not> caseVariantOfBTC ''ETH'' \<and>
   adjustedScore (adjustForBTCDominance (scoredAnalysis ''ETH'' (Num 5)) (marketCycle (Num 65)))
     = Num 4"
  using btc_test_is_case_insensitive [of "scoredAnalysis ''Btc'' (Num 5)" "marketCycle (Num 65)"]
    btc_test_is_case_insensitive [of "scoredAnalysis ''ETH'' (Num 5)" "marketCycle (Num 65)"]
  by (simp add: caseVariantOfBTC_def scoredAnalysis_def impact_defs dominance_defs)

section \<open>A market capitalisation that is not positive\<close>


text \<open>The two zeros are distinct divisors: with a market capitalisation of \<open>-0\<close> the
  quotient \<^verbatim>\<open>1e11 / marketCap\<close> is the negative infinity, and both scores are \<open>NaN\<close> as well.\<close>

lemma negative_zero_market_cap_scores_NaN:
  "calculateInvestmentScore (withMarketCap NegZero (Num 50000000000)) = NaN"
  "calculatePotentialReturn (withMarketCap NegZero (Num 50000000000)) = NaN"
  by (simp_all add: withMarketCap_def mockAnalysis_def calculateInvestmentScore_def
      calculatePotentialReturn_def jdiv_def signed_inf_def)

section \<open>Momentum and volatility of short series\<close>

lemma momentum_empty: "calculateMomentumIndicator [] = Num 1"
  by (simp add: calculateMomentumIndicator_def average_or_zero_def jseq_def)

lemma momentum_single:
  "calculateMomentumIndicator [Num x] = (if x < 0 then Num 0 else Num 1)"
  by (simp add: calculateMomentumIndicator_def average_or_zero_def jseq_def)

lemma volatility_single:
  "stdDev [Num x] = Num 0 \<and>
   calculateVolatilityScore [Num x] = \<lparr>score = Num 0, category = ''Baja''\<rparr>"
  by (simp add: calculateVolatilityScore_def stdDev_def VOLATILITY_HIGH_def
      VOLATILITY_MEDIUM_def)

text \<open>A coin whose four percent changes are all \<^verbatim>\<open>null\<close> reaches the volatility of the
  empty series, and its investment score is \<open>NaN\<close>.\<close>

lemma no_changes_investment_score:
  assumes "percent_change_1h c = None" "percent_change_24h c = None"
    "percent_change_7d c = None" "percent_change_30d c = None"
  shows "volatility (metrics (performBaseAnalysis t c)) = calculateVolatilityScore [] \<and>
         investmentScore (performBaseAnalysis t c) = NaN"
  by (simp add: performBaseAnalysis_def Let_def assms calculateInvestmentScore_def
      calculateVolatilityScore_def stdDev_def)

text \<open>
  Claim C9 at the empty series. \<^verbatim>\<open>calculateVolatilityScore\<close> divides by the length of the
  series with no guard: for the empty series the mean is 0/0, so the standard deviation
  and the score are \<open>NaN\<close>, not a defined neutral value. (The momentum of the empty series
  is 1, and the standard deviation of a single value is 0, as the lemmas above show.)
\<close>

theorem volatility_of_empty_series_is_NaN:
  "stdDev [] = NaN \<and> calculateVolatilityScore [] = \<lparr>score = NaN, category = ''Baja''\<rparr>"
  by (simp add: calculateVolatilityScore_def stdDev_def jgt_def VOLATILITY_HIGH_def
      VOLATILITY_MEDIUM_def)

section \<open>The scan\<close>

subsection \<open>One token\<close>

lemma analyzeToken_eq:
  "analyzeToken e s st =
     (outcome e (dominanceFetches st) s, st\<lparr>dominanceFetches := Suc (dominanceFetches st)\<rparr>)"
  by (simp add: analyzeToken_def outcome_def analyzeMarketCycle_def getCurrentDominance_def
      Let_def split: sum.splits option.splits prod.splits)



lemma adjust_fields [simp]:
  "btcDominance (adjustForBTCDominance a d) = d"
  "basic (adjustForBTCDominance a d) = basic a"
  by (simp_all add: adjustForBTCDominance_def)

lemma basic_performBaseAnalysis [simp]:
  "symbol (basic (performBaseAnalysis t c)) = coin_symbol c"
  by (simp add: performBaseAnalysis_def Let_def)

lemma zero_cap_zero_volume:
  assumes "market_cap c = Num 0" "volume_24h c = Num 0"
  shows "investmentScore (performBaseAnalysis t c) = NaN"
  by (simp add: performBaseAnalysis_def Let_def calculateInvestmentScore_def
      calculateVolumeHealth_def assms)

lemma adjusted_NaN:
  "investmentScore a = NaN \<Longrightarrow> adjustedScore (adjustForBTCDominance a d) = NaN"
  by (simp add: adjustForBTCDominance_def)




subsection \<open>The loop\<close>

lemma scanLoop_eq:
  "scanLoop e cs opps st =
     (opps @ surviving e (dominanceFetches st) cs,
      st\<lparr>dominanceFetches := dominanceFetches st + length cs,
         logged := logged st @
           List.map_filter (\<lambda>(i, c). case outcome e i (coin_symbol c) of
               Inr a \<Rightarrow> None
             | Inl err \<Rightarrow> Some (''Error analizando '' @ coin_symbol c @ '': '' @ message err))
            (enumerate (dominanceFetches st) cs)\<rparr>)"
proof (induction cs arbitrary: opps st)
  case Nil
  then show ?case by (simp add: surviving_def map_filter_simps)
next
  case (Cons c cs)
  show ?case
    by (cases "outcome e (dominanceFetches st) (coin_symbol c)")
       (simp_all add: analyzeToken_eq Cons.IH surviving_def map_filter_simps log_msg_def)
qed



subsection \<open>The sort\<close>

lemma set_sort_insert [simp]: "set (sort_insert cmp x ys) = insert x (set ys)"
  by (induction ys) auto

lemma length_sort_insert [simp]: "length (sort_insert cmp x ys) = Suc (length ys)"
  by (induction ys) auto

lemma set_js_sort [simp]: "set (js_sort cmp xs) = set xs"
  by (induction xs) (simp_all add: js_sort_def)

lemma length_js_sort [simp]: "length (js_sort cmp xs) = length xs"
  by (induction xs) (simp_all add: js_sort_def)

lemma sorted_sort_insert:
  assumes "adjustedScore x \<noteq> NaN" "\<forall>y\<in>set ys. adjustedScore y \<noteq> NaN"
    "sorted_wrt (\<lambda>a b. jge (adjustedScore a) (adjustedScore b)) ys"
  shows "sorted_wrt (\<lambda>a b. jge (adjustedScore a) (adjustedScore b))
           (sort_insert byAdjustedScore x ys)"
  using assms
proof (induction ys)
  case Nil
  then show ?case by simp
next
  case (Cons y ys)
  show ?case
  proof (cases "jlt (adjustedScore x) (adjustedScore y)")
    case True
    then show ?thesis using Cons
      by (auto simp add: byAdjustedScore_def cmp_pos_iff jlt_jge)
  next
    case False
    then have "jge (adjustedScore x) (adjustedScore y)"
      using Cons.prems by (simp add: jge_total)
    then show ?thesis using Cons.prems False
      by (auto simp add: byAdjustedScore_def cmp_pos_iff intro: jge_trans)
  qed
qed

lemma sorted_js_sort:
  "\<forall>y\<in>set xs. adjustedScore y \<noteq> NaN \<Longrightarrow>
   sorted_wrt (\<lambda>a b. jge (adjustedScore a) (adjustedScore b)) (js_sort byAdjustedScore xs)"
proof (induction xs)
  case Nil
  then show ?case by (simp add: js_sort_def)
next
  case (Cons x xs)
  then have "sorted_wrt (\<lambda>a b. jge (adjustedScore a) (adjustedScore b))
               (js_sort byAdjustedScore xs)"
    by simp
  then have "sorted_wrt (\<lambda>a b. jge (adjustedScore a) (adjustedScore b))
               (sort_insert byAdjustedScore x (js_sort byAdjustedScore xs))"
    using Cons.prems by (intro sorted_sort_insert) simp_all
  then show ?case by (simp add: js_sort_def)
qed

lemma stable_sort_insert:
  assumes "adjustedScore x \<noteq> NaN" "\<forall>y\<in>set ys. adjustedScore y \<noteq> NaN"
  shows "filter (\<lambda>a. adjustedScore a = v) (sort_insert byAdjustedScore x ys) =
         filter (\<lambda>a. adjustedScore a = v) (x # ys)"
  using assms
proof (induction ys)
  case Nil
  then show ?case by simp
next
  case (Cons y ys)
  then show ?case
    by (auto simp add: byAdjustedScore_def cmp_pos_iff dest: jlt_neq)
qed

lemma stable_js_sort:
  "\<forall>y\<in>set xs. adjustedScore y \<noteq> NaN \<Longrightarrow>
   filter (\<lambda>a. adjustedScore a = v) (js_sort byAdjustedScore xs) =
   filter (\<lambda>a. adjustedScore a = v) xs"
proof (induction xs)
  case Nil
  then show ?case by (simp add: js_sort_def)
next
  case (Cons x xs)
  have "filter (\<lambda>a. adjustedScore a = v) (js_sort byAdjustedScore (x # xs)) =
        filter (\<lambda>a. adjustedScore a = v)
          (sort_insert byAdjustedScore x (js_sort byAdjustedScore xs))"
    by (simp add: js_sort_def)
  also have "\<dots> = filter (\<lambda>a. adjustedScore a = v) (x # js_sort byAdjustedScore xs)"
    using Cons.prems by (intro stable_sort_insert) simp_all
  finally show ?case using Cons by simp
qed

lemma sorted_wrt_take: "sorted_wrt R xs \<Longrightarrow> sorted_wrt R (take n xs)"
  by (metis append_take_drop_id sorted_wrt_append)

lemma prefix_filter_take: "prefix (filter P (take n xs)) (filter P xs)"
  by (metis append_take_drop_id filter_append prefixI)

subsection \<open>The example batches\<close>

lemma outcome_batch:
  "outcome (batchEnv cs readings) k s =
     (case map_of (map (\<lambda>c. (coin_symbol c, c)) cs) (toUpperCase s) of
        None \<Rightarrow>
          (case readings k of
             Inl err \<Rightarrow> Inl (Error (''Error analizando '' @ s @ '': '' @
                 ''Error en an'' @ [CHR 0xC3, CHR 0xA1] @ ''lisis de ciclo: '' @
                 ''Error obteniendo dominancia BTC: '' @ message err))
           | Inr d \<Rightarrow> Inl (Error (''Error analizando '' @ s @ '': '' @ ''Token no encontrado'')))
      | Some c \<Rightarrow>
          (case readings k of
             Inl err \<Rightarrow> Inl (Error (''Error analizando '' @ s @ '': '' @
                 ''Error en an'' @ [CHR 0xC3, CHR 0xA1] @ ''lisis de ciclo: '' @
                 ''Error obteniendo dominancia BTC: '' @ message err))
           | Inr d \<Rightarrow> Inr (adjustForBTCDominance (performBaseAnalysis {} c) (marketCycle d))))"
  by (simp add: outcome_def analyzeToken_def analyzeMarketCycle_def getCurrentDominance_def
      batchEnv_def Let_def split: sum.splits option.splits)


lemma listings_batch [simp]: "listings_response (batchEnv cs readings) = Inr cs"
  by (simp add: batchEnv_def)

lemma example_score:
  "adjustedScore (adjustForBTCDominance
      (performBaseAnalysis t (exampleCoin s (Num 1000000000) (Num 100000000)))
      (marketCycle (Num 45))) \<noteq> NaN"
  by (simp add: adjustForBTCDominance_def performBaseAnalysis_def exampleCoin_def Let_def
        calculateInvestmentScore_def calculateVolumeHealth_def calculateMarketMaturity_def
        calculateMomentumIndicator_def calculateVolatilityScore_def stdDev_def
        average_or_zero_def impact_defs
        DOMINANCE_HIGH_def DOMINANCE_LOW_def EXCEPTIONAL_def VOLATILITY_HIGH_def
        LARGE_CAP_def MID_CAP_def SMALL_CAP_def MICRO_CAP_def jseq_def)

lemmas example_defs = fiveCoins_def twoCoins_def nanFirst_def exampleCoin_def st0_def
  steady_def moving_def toUpperCase_def toUpperCase_char_def



lemma surviving_nanFirst:
  "surviving (batchEnv nanFirst steady) 0 nanFirst =
     [adjustForBTCDominance (performBaseAnalysis {} (nanFirst ! 0)) (marketCycle (Num 45)),
      adjustForBTCDominance (performBaseAnalysis {} (nanFirst ! 1)) (marketCycle (Num 45))]"
  by (simp add: surviving_def outcome_batch map_filter_simps enumerate_eq_zip upt_rec
      example_defs)


subsection \<open>Dropped and kept entries\<close>




subsection \<open>Dominance requests\<close>




subsection \<open>The ranking\<close>

text \<open>
  The result of a scan has at most 10 entries. When no surviving analysis has the
  adjusted score \<open>NaN\<close>, the result is sorted by adjusted score in descending order, and
  entries with equal adjusted score keep the order of the listing (for each score, the
  entries of the result with that score are an initial part of the surviving analyses
  with that score, in their order).
\<close>

lemma ranking_without_NaN:
  assumes "listings_response e = Inr coins"
    "\<forall>a\<in>set (surviving e (dominanceFetches st) coins). adjustedScore a \<noteq> NaN"
  shows "\<not> isl (fst (scanTopOpportunities e st)) \<and>
         length (projr (fst (scanTopOpportunities e st))) \<le> 10 \<and>
         sorted_wrt (\<lambda>a b. jge (adjustedScore a) (adjustedScore b))
           (projr (fst (scanTopOpportunities e st))) \<and>
         (\<forall>v. prefix (filter (\<lambda>a. adjustedScore a = v) (projr (fst (scanTopOpportunities e st))))
                     (filter (\<lambda>a. adjustedScore a = v)
                        (surviving e (dominanceFetches st) coins)))"
proof -
  let ?opps = "surviving e (dominanceFetches st) coins"
  have r: "fst (scanTopOpportunities e st) = Inr (take 10 (js_sort byAdjustedScore ?opps))"
    by (simp add: scanTopOpportunities_def assms(1) scanLoop_eq sortAndSlice_def)
  have "prefix (filter (\<lambda>a. adjustedScore a = v) (take 10 (js_sort byAdjustedScore ?opps)))
          (filter (\<lambda>a. adjustedScore a = v) ?opps)" for v
    using prefix_filter_take [of "\<lambda>a. adjustedScore a = v" 10 "js_sort byAdjustedScore ?opps"]
    by (simp add: stable_js_sort [OF assms(2)])
  then show ?thesis
    using sorted_js_sort [OF assms(2)] by (simp add: r sorted_wrt_take)
qed

text \<open>
  Claim C8 at a listing with a score that is not a number. Nothing keeps a \<open>NaN\<close> score out
  of the sort: a listed coin with market capitalisation 0 and volume 0 has the volume
  ratio 0/0, so its adjusted score is \<open>NaN\<close>; it stays in the result of the scan, where its
  score is neither greater than nor equal to that of the entry that follows it. The
  result is not in descending order.
\<close>

theorem NaN_score_breaks_ranking_order:
  "length (projr (fst (scanTopOpportunities (batchEnv nanFirst steady) st0))) = 2 \<and>
   adjustedScore (projr (fst (scanTopOpportunities (batchEnv nanFirst steady) st0)) ! 0) = NaN \<and>
   \<not> jge (adjustedScore (projr (fst (scanTopOpportunities (batchEnv nanFirst steady) st0)) ! 0))
          (adjustedScore (projr (fst (scanTopOpportunities (batchEnv nanFirst steady) st0)) ! 1))"
proof -
  let ?z = "adjustForBTCDominance (performBaseAnalysis {} (nanFirst ! 0)) (marketCycle (Num 45))"
  let ?a = "adjustForBTCDominance (performBaseAnalysis {} (nanFirst ! 1)) (marketCycle (Num 45))"
  have z: "adjustedScore ?z = NaN"
    by (intro adjusted_NaN zero_cap_zero_volume) (simp_all add: nanFirst_def exampleCoin_def)
  have "js_sort byAdjustedScore [?z, ?a] = [?z, ?a]"
    by (simp add: js_sort_def byAdjustedScore_def z jsub_def jgt_def)
  then have "projr (fst (scanTopOpportunities (batchEnv nanFirst steady) st0)) = [?z, ?a]"
    by (simp add: scanTopOpportunities_def scanLoop_eq sortAndSlice_def st0_def
        surviving_nanFirst)
  then show ?thesis
    by (simp add: z jge_def jle_def jseq_def)
qed

end
